theory Spec2Isabelle
  imports Main
begin

section \<open>JavaScript values\<close>

text \<open>
  The values of \<^verbatim>\<open>server.js\<close> are JSON values (request bodies, upstream responses) and
  \<^verbatim>\<open>undefined\<close>. Numbers are the integers the program computes with (millisecond
  timestamps, lifetimes in seconds, identifiers); \<^verbatim>\<open>NaN\<close> and fractions are not modelled.
  An object is its list of key/value pairs, read with \<open>map_of\<close>.
\<close>

datatype jsval =
    Undef
  | Null
  | JBool bool
  | JNum int
  | JStr string
  | JArr "jsval list"
  | JObj "(string \<times> jsval) list"

text \<open>Truthiness, as \<^verbatim>\<open>!v\<close>, \<^verbatim>\<open>||\<close> and \<^verbatim>\<open>if (v)\<close> test it.\<close>

fun truthy :: "jsval \<Rightarrow> bool" where
  "truthy Undef = False"
| "truthy Null = False"
| "truthy (JBool b) = b"
| "truthy (JNum n) = (n \<noteq> 0)"
| "truthy (JStr s) = (s \<noteq> [])"
| "truthy (JArr xs) = True"
| "truthy (JObj kvs) = True"

text \<open>\<^verbatim>\<open>a || b\<close>: the left operand when it is truthy, the right one otherwise.\<close>

definition js_or :: "jsval \<Rightarrow> jsval \<Rightarrow> jsval" where
  "js_or a b = (if truthy a then a else b)"

definition nullish :: "jsval \<Rightarrow> bool" where
  "nullish v = (v = Undef \<or> v = Null)"

fun isArray :: "jsval \<Rightarrow> bool" where
  "isArray (JArr xs) = True"
| "isArray v = False"

fun elems :: "jsval \<Rightarrow> jsval list" where
  "elems (JArr xs) = xs"
| "elems v = []"

fun is_string :: "jsval \<Rightarrow> bool" where
  "is_string (JStr s) = True"
| "is_string v = False"

text \<open>
  Thrown values are \<^verbatim>\<open>Error\<close> objects. The handlers read \<^verbatim>\<open>error.response?.data\<close>
  (\<open>Undef\<close> when the error has no response) and \<^verbatim>\<open>error.message\<close>.
\<close>

record js_error =
  response_data :: jsval
  message :: string

definition Error :: "string \<Rightarrow> js_error" where
  "Error msg = \<lparr>response_data = Undef, message = msg\<rparr>"

text \<open>The \<^verbatim>\<open>TypeError\<close> of reading property \<open>k\<close> of \<^verbatim>\<open>null\<close> or \<^verbatim>\<open>undefined\<close>.\<close>

definition TypeError :: "jsval \<Rightarrow> string \<Rightarrow> js_error" where
  "TypeError v k =
     Error (''Cannot read properties of '' @ (if v = Null then ''null'' else ''undefined'')
            @ '' (reading '' @ [CHR 0x27] @ k @ [CHR 0x27] @ '')'')"

text \<open>
  \<^verbatim>\<open>v.k\<close> on a value that is not \<^verbatim>\<open>null\<close> or \<^verbatim>\<open>undefined\<close>: the value stored under \<open>k\<close>
  in an object, \<^verbatim>\<open>undefined\<close> for a missing key and for every key this program reads from a
  string, number, boolean or array.
\<close>

fun get :: "jsval \<Rightarrow> string \<Rightarrow> jsval" where
  "get (JObj kvs) k = (case map_of kvs k of None \<Rightarrow> Undef | Some v \<Rightarrow> v)"
| "get v k = Undef"

text \<open>\<^verbatim>\<open>v.k\<close> in general: reading a property of \<^verbatim>\<open>null\<close> or \<^verbatim>\<open>undefined\<close> throws.\<close>

definition getprop :: "jsval \<Rightarrow> string \<Rightarrow> js_error + jsval" where
  "getprop v k = (if nullish v then Inl (TypeError v k) else Inr (get v k))"

text \<open>\<^verbatim>\<open>v?.k\<close>: \<^verbatim>\<open>undefined\<close> when \<open>v\<close> is \<^verbatim>\<open>null\<close> or \<^verbatim>\<open>undefined\<close>.\<close>

definition optchain :: "jsval \<Rightarrow> string \<Rightarrow> jsval" where
  "optchain v k = (if nullish v then Undef else get v k)"

text \<open>
  A template literal \<^verbatim>\<open>`... ${v} ...`\<close> converts \<open>v\<close> to a string, and the conversion
  can throw. A primitive always converts. A parsed JSON object converts with
  \<^verbatim>\<open>Object.prototype.toString\<close> unless it has a key \<^verbatim>\<open>toString\<close> of its own: the value
  under that key is never a function, the inherited \<^verbatim>\<open>valueOf\<close> returns the object
  itself (and an own \<^verbatim>\<open>valueOf\<close> is no function either), so the conversion throws a
  \<^verbatim>\<open>TypeError\<close>. An array converts with \<^verbatim>\<open>join\<close>, which converts every element but
  \<^verbatim>\<open>null\<close>. The strings built this way only go to the console or into a header, so
  only the exception is modelled.
\<close>

fun ToString_throws :: "jsval \<Rightarrow> bool" where
  "ToString_throws (JObj kvs) = (map_of kvs ''toString'' \<noteq> None)"
| "ToString_throws (JArr xs) = (\<exists>x \<in> set xs. ToString_throws x)"
| "ToString_throws v = False"

definition cannot_convert :: js_error where
  "cannot_convert = Error ''Cannot convert object to primitive value''"

text \<open>\<^verbatim>\<open>error.response?.data || error.message\<close>, the \<^verbatim>\<open>details\<close> of a 500 answer.\<close>

definition details :: "js_error \<Rightarrow> jsval" where
  "details e = js_or (response_data e) (JStr (message e))"

section \<open>Credential store, upstream services and server state\<close>

text \<open>The object kept in \<^verbatim>\<open>tokenStore\<close> under a user id (lines 84-91).\<close>

record tokens =
  access_token :: jsval
  refresh_token :: jsval
  expires_at :: int
  location_id :: jsval
  company_id :: jsval
  scope :: jsval

text \<open>
  \<^verbatim>\<open>response.data\<close> of the token endpoint: an object with a numeric \<^verbatim>\<open>expires_in\<close>; every
  other field may be absent (\<open>Undef\<close>).
\<close>

record token_data =
  data_access_token :: jsval
  data_refresh_token :: jsval
  data_expires_in :: int
  data_locationId :: jsval
  data_companyId :: jsval
  data_scope :: jsval

text \<open>The two bodies posted to \<^verbatim>\<open>GHL_CONFIG.tokenUrl\<close> (lines 68-73 and 303-308).\<close>

text \<open>
  \<open>AuthorizationCode client_id client_secret code redirect_uri\<close> and
  \<open>RefreshToken client_id client_secret refresh_token\<close>.
\<close>

datatype token_request =
    AuthorizationCode string string jsval string
  | RefreshToken string string jsval

text \<open>\<^verbatim>\<open>contactData\<close> (lines 202-216).\<close>

record contact =
  firstName :: jsval
  lastName :: jsval
  email :: jsval
  phone :: jsval
  address1 :: jsval
  city :: jsval
  state :: jsval
  country :: jsval
  postalCode :: jsval
  website :: jsval
  timezone :: jsval
  source :: string
  tags :: "string list"

text \<open>
  The call to \<^verbatim>\<open>/contacts/\<close> (lines 218-231): the payload, the token of the
  \<^verbatim>\<open>Authorization: Bearer\<close> header and the \<^verbatim>\<open>locationId\<close> query parameter.
\<close>

record contact_request =
  payload :: contact
  bearer :: jsval
  param_locationId :: jsval

text \<open>
  One entry of the log of upstream calls: the request sent and what axios gave back
  (\<open>Inl\<close> a thrown error, \<open>Inr\<close> the \<^verbatim>\<open>response.data\<close>).
\<close>

datatype upstream_call =
    TokenCall token_request "js_error + token_data"
  | ContactCall contact_request "js_error + jsval"

record ghl_config =
  clientId :: string
  clientSecret :: string
  redirectUri :: string

text \<open>
  Everything outside the process, over a state \<open>'w\<close> of the outside world: the clock read
  by \<^verbatim>\<open>Date.now()\<close> and the two upstream endpoints, which answer a request in a world and
  leave a new world. Synchronous code takes no time: the world changes only across an
  \<^verbatim>\<open>await\<close>.
\<close>

record 'w env =
  config :: ghl_config
  clock :: "'w \<Rightarrow> int"
  token_endpoint :: "token_request \<Rightarrow> 'w \<Rightarrow> (js_error + token_data) \<times> 'w"
  contacts_endpoint :: "contact_request \<Rightarrow> 'w \<Rightarrow> (js_error + jsval) \<times> 'w"

text \<open>The state of the server: \<^verbatim>\<open>tokenStore\<close>, the outside world, and the calls made so far.\<close>

record 'w server =
  tokenStore :: "string \<rightharpoonup> tokens"
  world :: 'w
  calls :: "upstream_call list"

definition default_user :: string where
  "default_user = ''default_user''"

text \<open>\<^verbatim>\<open>await axios.post(GHL_CONFIG.tokenUrl, ...)\<close>.\<close>

definition axios_post_token ::
  "'w env \<Rightarrow> token_request \<Rightarrow> 'w server \<Rightarrow> (js_error + token_data) \<times> 'w server" where
  "axios_post_token env req st =
     (case token_endpoint env req (world st) of
        (r, w') \<Rightarrow> (r, st\<lparr>world := w', calls := calls st @ [TokenCall req r]\<rparr>))"

text \<open>\<^verbatim>\<open>await axios.post(`${GHL_CONFIG.apiBaseUrl}/contacts/`, ...)\<close>.\<close>

definition axios_post_contact ::
  "'w env \<Rightarrow> contact_request \<Rightarrow> 'w server \<Rightarrow> (js_error + jsval) \<times> 'w server" where
  "axios_post_contact env req st =
     (case contacts_endpoint env req (world st) of
        (r, w') \<Rightarrow> (r, st\<lparr>world := w', calls := calls st @ [ContactCall req r]\<rparr>))"

section \<open>Token lifecycle\<close>

text \<open>The body of the refresh call (lines 303-308).\<close>

definition refresh_request :: "'w env \<Rightarrow> tokens \<Rightarrow> token_request" where
  "refresh_request env tokens =
     RefreshToken (clientId (config env)) (clientSecret (config env)) (refresh_token tokens)"

text \<open>\<^verbatim>\<open>refreshAccessToken(userId)\<close> (lines 295-332).\<close>

definition refreshAccessToken ::
  "'w env \<Rightarrow> string \<Rightarrow> 'w server \<Rightarrow> (js_error + token_data) \<times> 'w server" where
  "refreshAccessToken env userId st =
     (case tokenStore st userId of
        None \<Rightarrow> (Inl (Error ''No refresh token available''), st)
      | Some tokens \<Rightarrow>
          if \<not> truthy (refresh_token tokens)
          then (Inl (Error ''No refresh token available''), st)
          else
            (case axios_post_token env (refresh_request env tokens) st of
               (Inl error, st1) \<Rightarrow>
                 (Inl (Error ''Failed to refresh token''),
                  st1\<lparr>tokenStore := (tokenStore st1)(userId := None)\<rparr>)
             | (Inr newTokenData, st1) \<Rightarrow>
                 (Inr newTokenData,
                  st1\<lparr>tokenStore := (tokenStore st1)(userId \<mapsto>
                    tokens\<lparr>access_token := data_access_token newTokenData,
                           expires_at := clock env (world st1)
                                          + data_expires_in newTokenData * 1000,
                           refresh_token := js_or (data_refresh_token newTokenData)
                                              (refresh_token tokens)\<rparr>)\<rparr>)))"

text \<open>
  \<^verbatim>\<open>const updatedTokens = tokenStore.get(userId)\<close> and the first read of one of its fields,
  which throws when there is no record (\<open>resolveTokens_store\<close> below: this never happens).
\<close>

definition updatedTokens :: "string \<Rightarrow> 'w server \<Rightarrow> (js_error + tokens) \<times> 'w server" where
  "updatedTokens userId st =
     (case tokenStore st userId of
        None \<Rightarrow> (Inl (TypeError Undef ''access_token''), st)
      | Some tokens \<Rightarrow> (Inr tokens, st))"

text \<open>
  The step shared by the handlers that need a token (lines 115-120 and 189-194):
  refresh when \<^verbatim>\<open>Date.now() >= tokens.expires_at\<close>, then read the record again.
\<close>

definition resolveTokens ::
  "'w env \<Rightarrow> string \<Rightarrow> tokens \<Rightarrow> 'w server \<Rightarrow> (js_error + tokens) \<times> 'w server" where
  "resolveTokens env userId tokens st =
     (if clock env (world st) \<ge> expires_at tokens
      then (case refreshAccessToken env userId st of
              (Inl error, st1) \<Rightarrow> (Inl error, st1)
            | (Inr newTokenData, st1) \<Rightarrow> updatedTokens userId st1)
      else updatedTokens userId st)"

text \<open>
  What the spec calls \<open>getValidToken\<close>, as the handler of \<^verbatim>\<open>/api/locations\<close> does it
  (lines 107-125): no record answers 401, an error thrown by the refresh answers 500, and
  otherwise the call goes out with \<^verbatim>\<open>updatedTokens.access_token\<close>.
\<close>

datatype token_failure = NotAuthenticated | Thrown js_error

definition getValidToken ::
  "'w env \<Rightarrow> string \<Rightarrow> 'w server \<Rightarrow> (token_failure + jsval) \<times> 'w server" where
  "getValidToken env userId st =
     (case tokenStore st userId of
        None \<Rightarrow> (Inl NotAuthenticated, st)
      | Some tokens \<Rightarrow>
          (case resolveTokens env userId tokens st of
             (Inl error, st1) \<Rightarrow> (Inl (Thrown error), st1)
           | (Inr updated, st1) \<Rightarrow> (Inr (access_token updated), st1)))"

text \<open>
  The handler of \<^verbatim>\<open>/auth/gohighlevel/callback\<close> (lines 59-103), the spec's
  \<open>completeAuthorization\<close>. The record is stored (line 84) before the redirect URL is built
  (line 94); the template literal of the URL converts \<^verbatim>\<open>tokenData.locationId\<close> to a
  string, and a throw there is caught like a failed exchange. The second registration of
  the path (line 337) is never reached: this handler always answers.
\<close>

datatype callback_response =
    CodeMissing400
  | Redirect jsval
  | ExchangeFailed500 jsval

definition callback ::
  "'w env \<Rightarrow> jsval \<Rightarrow> 'w server \<Rightarrow> callback_response \<times> 'w server" where
  "callback env code st =
     (if \<not> truthy code then (CodeMissing400, st)
      else
        (case axios_post_token env
                (AuthorizationCode (clientId (config env)) (clientSecret (config env)) code
                   (redirectUri (config env))) st of
           (Inl error, st1) \<Rightarrow> (ExchangeFailed500 (details error), st1)
         | (Inr tokenData, st1) \<Rightarrow>
             (if ToString_throws (data_locationId tokenData)
              then ExchangeFailed500 (details cannot_convert)
              else Redirect (data_locationId tokenData),
              st1\<lparr>tokenStore := (tokenStore st1)(default_user \<mapsto>
                \<lparr>access_token = data_access_token tokenData,
                 refresh_token = data_refresh_token tokenData,
                 expires_at = clock env (world st1) + data_expires_in tokenData * 1000,
                 location_id = data_locationId tokenData,
                 company_id = data_companyId tokenData,
                 scope = data_scope tokenData\<rparr>)\<rparr>)))"

text \<open>The handler of \<^verbatim>\<open>/api/auth/status\<close> (lines 275-292).\<close>

datatype status_response =
    StatusNone
  | Status bool jsval jsval int

fun authenticated :: "status_response \<Rightarrow> bool" where
  "authenticated StatusNone = False"
| "authenticated (Status a l c e) = a"

definition authStatus ::
  "'w env \<Rightarrow> 'w server \<Rightarrow> status_response \<times> 'w server" where
  "authStatus env st =
     (case tokenStore st default_user of
        None \<Rightarrow> (StatusNone, st)
      | Some tokens \<Rightarrow>
          (let isExpired = (clock env (world st) \<ge> expires_at tokens)
           in (Status (\<not> isExpired) (location_id tokens) (company_id tokens)
                 (expires_at tokens), st)))"

section \<open>Lead normalisation and export\<close>

text \<open>The object literal \<^verbatim>\<open>contactData\<close> of a lead that is not \<^verbatim>\<open>null\<close> (lines 202-216).\<close>

definition contactData :: "jsval \<Rightarrow> contact" where
  "contactData lead =
        \<lparr>firstName = js_or (js_or (get lead ''firstName'') (get lead ''first_name'')) (JStr ''''),
         lastName = js_or (js_or (get lead ''lastName'') (get lead ''last_name'')) (JStr ''''),
         email = js_or (get lead ''email'') (JStr ''''),
         phone = js_or (js_or (get lead ''phone'') (get lead ''phoneNumber'')) (JStr ''''),
         address1 = js_or (js_or (get lead ''address'') (get lead ''address1'')) (JStr ''''),
         city = js_or (get lead ''city'') (JStr ''''),
         state = js_or (get lead ''state'') (JStr ''''),
         country = js_or (get lead ''country'') (JStr ''US''),
         postalCode = js_or (js_or (get lead ''zipCode'') (get lead ''postalCode'')) (JStr ''''),
         website = js_or (get lead ''website'') (JStr ''''),
         timezone = js_or (get lead ''timezone'') (JStr ''America/New_York''),
         source = ''D7 LeadFinder Import'',
         tags = [''D7Import'', ''Lead'']\<rparr>"

text \<open>
  The spec's \<open>normalize\<close>: evaluating the literal. Its first property read,
  \<^verbatim>\<open>lead.firstName\<close>, throws when the lead is \<^verbatim>\<open>null\<close>.
\<close>

definition normalize :: "jsval \<Rightarrow> js_error + contact" where
  "normalize lead =
     (if nullish lead then Inl (TypeError lead ''firstName'') else Inr (contactData lead))"

text \<open>An entry of \<^verbatim>\<open>results\<close>: the object pushed at line 233 or the one pushed at line 242.\<close>

datatype export_result =
    Success (leadId: jsval) (contactId: jsval) (res_email: jsval)
  | Failure (leadId: jsval) (res_email: jsval) (res_error: jsval)

fun success :: "export_result \<Rightarrow> bool" where
  "success (Success l c e) = True"
| "success (Failure l e m) = False"

text \<open>
  The \<^verbatim>\<open>catch (leadError)\<close> block (lines 240-248). Its first statement (line 241) builds
  the log line \<^verbatim>\<open>`Failed to export lead ${lead.email}:`\<close>: reading \<^verbatim>\<open>lead.email\<close>
  throws when the lead is \<^verbatim>\<open>null\<close>, and converting the email to a string throws when
  \<open>ToString_throws\<close> says so. Either exception leaves the block, and with it the loop,
  before anything is pushed.
\<close>

definition catch_leadError :: "jsval \<Rightarrow> js_error \<Rightarrow> js_error + export_result" where
  "catch_leadError lead leadError =
     (case getprop lead ''email'' of
        Inl thrown \<Rightarrow> Inl thrown
      | Inr lead_email \<Rightarrow>
          if ToString_throws lead_email then Inl cannot_convert
          else
            Inr (Failure (js_or (get lead ''id'') (get lead ''_id'')) lead_email
                   (js_or (optchain (response_data leadError) ''message'')
                      (JStr (message leadError)))))"

text \<open>
  The body of the loop (lines 201-248) for one lead: \<open>Inr\<close> the result pushed, \<open>Inl\<close> an
  error that leaves the loop. The arguments of \<^verbatim>\<open>axios.post\<close> are evaluated inside the
  \<^verbatim>\<open>try\<close>: the \<^verbatim>\<open>Authorization\<close> header (line 223) converts the access token to a
  string, and a throw there is caught before any call is made.
\<close>

definition exportLead ::
  "'w env \<Rightarrow> tokens \<Rightarrow> jsval \<Rightarrow> jsval \<Rightarrow> 'w server
     \<Rightarrow> (js_error + export_result) \<times> 'w server" where
  "exportLead env updated targetLocationId lead st =
     (case normalize lead of
        Inl leadError \<Rightarrow> (catch_leadError lead leadError, st)
      | Inr contact_data \<Rightarrow>
          if ToString_throws (access_token updated)
          then (catch_leadError lead cannot_convert, st)
          else
            (case axios_post_contact env
                    \<lparr>payload = contact_data, bearer = access_token updated,
                     param_locationId = targetLocationId\<rparr> st of
               (Inl leadError, st1) \<Rightarrow> (catch_leadError lead leadError, st1)
             | (Inr data, st1) \<Rightarrow>
                 (case getprop data ''contact'' of
                    Inl leadError \<Rightarrow> (catch_leadError lead leadError, st1)
                  | Inr c \<Rightarrow>
                      (Inr (Success (js_or (get lead ''id'') (get lead ''_id''))
                              (optchain c ''id'') (email contact_data)), st1))))"

text \<open>\<^verbatim>\<open>for (const lead of leads)\<close> (lines 200-249), with \<^verbatim>\<open>results\<close> as accumulator.\<close>

fun exportLoop ::
  "'w env \<Rightarrow> tokens \<Rightarrow> jsval \<Rightarrow> jsval list \<Rightarrow> export_result list \<Rightarrow> 'w server
     \<Rightarrow> (js_error + export_result list) \<times> 'w server" where
  "exportLoop env updated targetLocationId [] results st = (Inr results, st)"
| "exportLoop env updated targetLocationId (lead # rest) results st =
     (case exportLead env updated targetLocationId lead st of
        (Inl error, st1) \<Rightarrow> (Inl error, st1)
      | (Inr r, st1) \<Rightarrow> exportLoop env updated targetLocationId rest (results @ [r]) st1)"

text \<open>
  The handler of \<^verbatim>\<open>/api/export-leads\<close> (lines 175-272). \<^verbatim>\<open>req.body\<close> is the object
  parsed by \<^verbatim>\<open>express.json()\<close>; a key it lacks reads as \<^verbatim>\<open>undefined\<close>. The report
  leaves out the \<^verbatim>\<open>message\<close> string, which repeats the two counts.
\<close>

record export_body =
  leads :: jsval
  locationId :: jsval

record export_report =
  results :: "export_result list"
  total :: nat
  successCount :: nat
  failedCount :: nat

datatype export_response =
    NotAuthenticated401
  | NoLeads400
  | Exported200 export_report
  | ExportFailed500 jsval

fun is_report :: "export_response \<Rightarrow> bool" where
  "is_report (Exported200 rep) = True"
| "is_report a = False"

definition exportLeads ::
  "'w env \<Rightarrow> export_body \<Rightarrow> 'w server \<Rightarrow> export_response \<times> 'w server" where
  "exportLeads env body st =
     (case tokenStore st default_user of
        None \<Rightarrow> (NotAuthenticated401, st)
      | Some tokens \<Rightarrow>
          if \<not> truthy (leads body) \<or> \<not> isArray (leads body) \<or> length (elems (leads body)) = 0
          then (NoLeads400, st)
          else
            (case resolveTokens env default_user tokens st of
               (Inl error, st1) \<Rightarrow> (ExportFailed500 (details error), st1)
             | (Inr updated, st1) \<Rightarrow>
                 (case exportLoop env updated (js_or (locationId body) (location_id updated))
                         (elems (leads body)) [] st1 of
                    (Inl error, st2) \<Rightarrow> (ExportFailed500 (details error), st2)
                  | (Inr rs, st2) \<Rightarrow>
                      (Exported200
                         \<lparr>results = rs,
                          total = length (elems (leads body)),
                          successCount = length (filter success rs),
                          failedCount = length (filter (\<lambda>r. \<not> success r) rs)\<rparr>, st2))))"

section \<open>Notions used by the properties\<close>

text \<open>
  The resolution rule as the spec words it (4.2): the keys are tried in the order given,
  the first one that is present gives the field, and the default is used when none is
  present. A key of a parsed JSON object is present exactly when reading it does not give
  \<^verbatim>\<open>undefined\<close>.
\<close>

definition resolve_present :: "string list \<Rightarrow> jsval \<Rightarrow> jsval \<Rightarrow> jsval" where
  "resolve_present keys dflt lead =
     (case filter (\<lambda>v. v \<noteq> Undef) (map (get lead) keys) of [] \<Rightarrow> dflt | v # _ \<Rightarrow> v)"

text \<open>
  The rule that the \<^verbatim>\<open>||\<close> chains of lines 203-213 follow instead: the first key holding
  a truthy value gives the field, and the default is used when there is none. A key that
  holds the empty string, 0, \<^verbatim>\<open>false\<close> or \<^verbatim>\<open>null\<close> is passed over like a missing one.
\<close>

definition resolve :: "string list \<Rightarrow> jsval \<Rightarrow> jsval \<Rightarrow> jsval" where
  "resolve keys dflt lead =
     (case filter truthy (map (get lead) keys) of [] \<Rightarrow> dflt | v # _ \<Rightarrow> v)"

text \<open>
  An entry \<open>r\<close> of \<^verbatim>\<open>results\<close> belongs to the lead \<open>lead\<close>: it carries the lead's
  identifier, and the lead's email (normalized on success, raw on failure).
\<close>

definition entry_of :: "jsval \<Rightarrow> export_result \<Rightarrow> bool" where
  "entry_of lead r =
     (leadId r = js_or (get lead ''id'') (get lead ''_id'')
      \<and> res_email r = (if success r then js_or (get lead ''email'') (JStr '''')
                        else get lead ''email''))"

text \<open>
  The catch block can build its log line for the lead: the lead is not \<^verbatim>\<open>null\<close> and
  its email converts to a string.
\<close>

definition loggable :: "jsval \<Rightarrow> bool" where
  "loggable lead = (\<not> nullish lead \<and> \<not> ToString_throws (get lead ''email''))"

text \<open>Every answer of the token endpoint carries a positive lifetime.\<close>

definition positive_lifetime :: "'w env \<Rightarrow> bool" where
  "positive_lifetime env =
     (\<forall>req w d w'. token_endpoint env req w = (Inr d, w') \<longrightarrow> 0 < data_expires_in d)"

section \<open>A concrete outside world\<close>

text \<open>
  A world for evaluating the handlers: the world is the time in milliseconds, every
  upstream call takes 5 ms, the token endpoint issues a one-hour token without a new
  refresh token, and the contacts endpoint rejects the address \<^verbatim>\<open>bad@example.com\<close>
  with a 422 and creates the contact \<^verbatim>\<open>c1\<close> otherwise.
\<close>

definition demo_config :: ghl_config where
  "demo_config = \<lparr>clientId = ''client'', clientSecret = ''secret'', redirectUri = ''uri''\<rparr>"

definition demo_token_data :: token_data where
  "demo_token_data =
     \<lparr>data_access_token = JStr ''fresh'', data_refresh_token = Undef, data_expires_in = 3600,
      data_locationId = JStr ''loc1'', data_companyId = JStr ''comp1'',
      data_scope = JStr ''contacts.write''\<rparr>"

definition invalid_email :: js_error where
  "invalid_email =
     \<lparr>response_data = JObj [(''message'', JStr ''Invalid email'')],
      message = ''Request failed with status code 422''\<rparr>"

definition demo_contacts :: "contact_request \<Rightarrow> int \<Rightarrow> (js_error + jsval) \<times> int" where
  "demo_contacts req w =
     (if email (payload req) = JStr ''bad@example.com''
      then (Inl invalid_email, w + 5)
      else (Inr (JObj [(''contact'', JObj [(''id'', JStr ''c1'')])]), w + 5))"

definition demo_env :: "int env" where
  "demo_env =
     \<lparr>config = demo_config, clock = (\<lambda>w. w),
      token_endpoint = (\<lambda>req w. (Inr demo_token_data, w + 5)),
      contacts_endpoint = demo_contacts\<rparr>"

text \<open>The same world with a token endpoint that rejects every request.\<close>

definition invalid_grant :: js_error where
  "invalid_grant =
     \<lparr>response_data = JObj [(''error'', JStr ''invalid_grant'')],
      message = ''Request failed with status code 400''\<rparr>"

definition rejecting_env :: "int env" where
  "rejecting_env =
     \<lparr>config = demo_config, clock = (\<lambda>w. w),
      token_endpoint = (\<lambda>req w. (Inl invalid_grant, w + 5)),
      contacts_endpoint = demo_contacts\<rparr>"

text \<open>
  A world whose contacts endpoint validates the email: it rejects a payload whose email
  is not a string with a 422 and creates the contact \<^verbatim>\<open>c1\<close> otherwise.
\<close>

definition strict_contacts :: "contact_request \<Rightarrow> int \<Rightarrow> (js_error + jsval) \<times> int" where
  "strict_contacts req w =
     (if is_string (email (payload req))
      then (Inr (JObj [(''contact'', JObj [(''id'', JStr ''c1'')])]), w + 5)
      else (Inl invalid_email, w + 5))"

definition strict_env :: "int env" where
  "strict_env =
     \<lparr>config = demo_config, clock = (\<lambda>w. w),
      token_endpoint = (\<lambda>req w. (Inr demo_token_data, w + 5)),
      contacts_endpoint = strict_contacts\<rparr>"

definition demo_tokens :: tokens where
  "demo_tokens =
     \<lparr>access_token = JStr ''old'', refresh_token = JStr ''r1'', expires_at = 1000,
      location_id = JStr ''loc1'', company_id = JStr ''comp1'',
      scope = JStr ''contacts.write''\<rparr>"

text \<open>A server holding \<open>demo_tokens\<close> at time \<open>w\<close>, and one holding nothing.\<close>

definition demo_server :: "int \<Rightarrow> int server" where
  "demo_server w = \<lparr>tokenStore = [default_user \<mapsto> demo_tokens], world = w, calls = []\<rparr>"

definition empty_server :: "int \<Rightarrow> int server" where
  "empty_server w = \<lparr>tokenStore = Map.empty, world = w, calls = []\<rparr>"

text \<open>Three leads: one the upstream accepts, one it rejects, one with a numeric email.\<close>

definition lead_ok :: jsval where
  "lead_ok =
     JObj [(''id'', JNum 7), (''first_name'', JStr ''Jo''), (''email'', JStr ''jo@example.com'')]"

definition lead_bad :: jsval where
  "lead_bad = JObj [(''_id'', JStr ''b2''), (''email'', JStr ''bad@example.com'')]"

definition lead_num :: jsval where
  "lead_num = JObj [(''email'', JNum 42)]"

text \<open>
  The lead \<^verbatim>\<open>{"id": 9, "email": {"toString": null}}\<close>, whose email does not convert to a
  string, and the lead \<^verbatim>\<open>{"firstName": "", "first_name": "Jo", "country": ""}\<close>, whose
  primary keys are present and hold the empty string.
\<close>

definition lead_weird :: jsval where
  "lead_weird = JObj [(''id'', JNum 9), (''email'', JObj [(''toString'', Null)])]"

definition lead_blank :: jsval where
  "lead_blank =
     JObj [(''firstName'', JStr []), (''first_name'', JStr ''Jo''), (''country'', JStr [])]"

definition demo_body :: "jsval list \<Rightarrow> export_body" where
  "demo_body ls = \<lparr>leads = JArr ls, locationId = Undef\<rparr>"

definition demo_report :: export_report where
  "demo_report =
     \<lparr>results =
        [Failure (JStr ''b2'') (JStr ''bad@example.com'') (JStr ''Invalid email''),
         Success (JNum 7) (JStr ''c1'') (JStr ''jo@example.com'')],
      total = 2, successCount = 1, failedCount = 1\<rparr>"

section \<open>Evaluation rules\<close>

lemmas demo_simps =
  demo_server_def empty_server_def demo_env_def rejecting_env_def strict_env_def
  demo_tokens_def demo_config_def demo_token_data_def demo_contacts_def strict_contacts_def
  demo_body_def lead_ok_def lead_bad_def lead_num_def lead_weird_def lead_blank_def

lemmas handler_simps =
  exportLeads_def resolveTokens_def updatedTokens_def exportLead_def normalize_def
  contactData_def axios_post_contact_def catch_leadError_def getprop_def optchain_def
  nullish_def js_or_def details_def TypeError_def cannot_convert_def Error_def

section \<open>Conversions to a string\<close>

text \<open>
  Which values a template literal cannot convert: an object with a key \<^verbatim>\<open>toString\<close> of
  its own, and an array holding such an object; not a primitive, an object without that
  key, or an array of \<^verbatim>\<open>null\<close>s.
\<close>

lemma ToString_throws_examples:
  "ToString_throws (JObj [(''toString'', Null)])"
  "ToString_throws (JObj [(''valueOf'', Null), (''toString'', JStr ''x'')])"
  "ToString_throws (JArr [JNum 1, JObj [(''toString'', Null)]])"
  "\<not> ToString_throws (JObj [(''valueOf'', Null)])"
  "\<not> ToString_throws (JObj [(''a'', JObj [(''toString'', Null)])])"
  "\<not> ToString_throws (JArr [Null, JStr ''a'', JArr []])"
  "\<not> ToString_throws Undef" "\<not> ToString_throws Null" "\<not> ToString_throws (JNum 42)"
  "\<not> ToString_throws (JStr ''a@b'')" "\<not> ToString_throws (JBool False)"
  by simp_all

text \<open>
  A stored access token that does not convert: the header of line 223 throws inside the
  \<^verbatim>\<open>try\<close>, no call is made and the lead is recorded as failed.
\<close>

lemma exportLead_token_not_convertible:
  "exportLead demo_env (demo_tokens\<lparr>access_token := JObj [(''toString'', Null)]\<rparr>)
     (JStr ''loc1'') lead_ok (demo_server 0) =
   (Inr (Failure (JNum 7) (JStr ''jo@example.com'')
           (JStr ''Cannot convert object to primitive value'')),
    demo_server 0)"
  by (simp add: demo_simps handler_simps)

text \<open>
  A token answer whose \<^verbatim>\<open>locationId\<close> does not convert: the record is stored, then the
  redirect URL of line 94 throws and the callback answers 500.
\<close>

lemma callback_location_not_convertible:
  "fst (callback
          (demo_env\<lparr>token_endpoint :=
             (\<lambda>req w. (Inr (demo_token_data\<lparr>data_locationId := JObj [(''toString'', Null)]\<rparr>),
                        w + 5))\<rparr>)
          (JStr ''code1'') (empty_server 0))
     = ExchangeFailed500 (JStr ''Cannot convert object to primitive value'')
   \<and> tokenStore
        (snd (callback
          (demo_env\<lparr>token_endpoint :=
             (\<lambda>req w. (Inr (demo_token_data\<lparr>data_locationId := JObj [(''toString'', Null)]\<rparr>),
                        w + 5))\<rparr>)
          (JStr ''code1'') (empty_server 0))) default_user
     = Some \<lparr>access_token = JStr ''fresh'', refresh_token = Undef, expires_at = 3600005,
             location_id = JObj [(''toString'', Null)], company_id = JStr ''comp1'',
             scope = JStr ''contacts.write''\<rparr>"
  by (simp add: callback_def axios_post_token_def demo_env_def demo_token_data_def
      empty_server_def details_def js_or_def cannot_convert_def Error_def)

section \<open>The token lifecycle\<close>

lemma refreshAccessToken_rejected:
  assumes "tokenStore st userId = Some t" and "truthy (refresh_token t)"
    and "token_endpoint env (refresh_request env t) (world st) = (Inl e, w')"
  shows "refreshAccessToken env userId st =
     (Inl (Error ''Failed to refresh token''),
      st\<lparr>world := w', calls := calls st @ [TokenCall (refresh_request env t) (Inl e)],
         tokenStore := (tokenStore st)(userId := None)\<rparr>)"
  using assms by (simp add: refreshAccessToken_def axios_post_token_def)

lemma refreshAccessToken_answered:
  assumes "tokenStore st userId = Some t" and "truthy (refresh_token t)"
    and "token_endpoint env (refresh_request env t) (world st) = (Inr d, w')"
  shows "refreshAccessToken env userId st =
     (Inr d,
      st\<lparr>world := w', calls := calls st @ [TokenCall (refresh_request env t) (Inr d)],
         tokenStore := (tokenStore st)(userId \<mapsto>
           t\<lparr>access_token := data_access_token d,
             expires_at := clock env w' + data_expires_in d * 1000,
             refresh_token := js_or (data_refresh_token d) (refresh_token t)\<rparr>)\<rparr>)"
  using assms by (simp add: refreshAccessToken_def axios_post_token_def)

lemma refreshAccessToken_no_refresh_token:
  assumes "tokenStore st userId = Some t" and "\<not> truthy (refresh_token t)"
  shows "refreshAccessToken env userId st = (Inl (Error ''No refresh token available''), st)"
  using assms by (simp add: refreshAccessToken_def)

text \<open>
  After \<open>resolveTokens\<close> the record read back is the stored one: the \<^verbatim>\<open>TypeError\<close> branch
  of \<open>updatedTokens\<close> is never taken, and the only errors are the two that
  \<open>refreshAccessToken\<close> throws.
\<close>

lemma resolveTokens_store:
  assumes "tokenStore st userId = Some t"
  shows "(\<exists>u st1. resolveTokens env userId t st = (Inr u, st1) \<and> tokenStore st1 userId = Some u)
     \<or> (\<exists>st1. resolveTokens env userId t st = (Inl (Error ''No refresh token available''), st1))
     \<or> (\<exists>st1. resolveTokens env userId t st = (Inl (Error ''Failed to refresh token''), st1))"
proof (cases "expires_at t \<le> clock env (world st)")
  case False
  then show ?thesis using assms by (simp add: resolveTokens_def updatedTokens_def)
next
  case expired: True
  show ?thesis
  proof (cases "truthy (refresh_token t)")
    case False
    then show ?thesis
      using assms expired
      by (simp add: resolveTokens_def refreshAccessToken_no_refresh_token)
  next
    case True
    obtain x w' where ep: "token_endpoint env (refresh_request env t) (world st) = (x, w')"
      by (cases "token_endpoint env (refresh_request env t) (world st)")
    show ?thesis
    proof (cases x)
      case (Inl e)
      then show ?thesis
        using expired refreshAccessToken_rejected [OF assms True ep [unfolded Inl]]
        by (simp add: resolveTokens_def)
    next
      case (Inr d)
      then show ?thesis
        using expired refreshAccessToken_answered [OF assms True ep [unfolded Inr]]
        by (simp add: resolveTokens_def updatedTokens_def)
    qed
  qed
qed

lemma getValidToken_fresh:
  assumes "tokenStore st userId = Some t" and "clock env (world st) < expires_at t"
  shows "getValidToken env userId st = (Inr (access_token t), st)"
  using assms by (simp add: getValidToken_def resolveTokens_def updatedTokens_def)

lemma getValidToken_expired:
  assumes "tokenStore st userId = Some t" and "expires_at t \<le> clock env (world st)"
  shows "getValidToken env userId st =
     (case refreshAccessToken env userId st of
        (Inl e, st1) \<Rightarrow> (Inl (Thrown e), st1)
      | (Inr d, st1) \<Rightarrow> (Inr (data_access_token d), st1))"
proof (cases "truthy (refresh_token t)")
  case False
  then show ?thesis
    using assms
    by (simp add: getValidToken_def resolveTokens_def refreshAccessToken_no_refresh_token)
next
  case True
  obtain x w' where ep: "token_endpoint env (refresh_request env t) (world st) = (x, w')"
    by (cases "token_endpoint env (refresh_request env t) (world st)")
  show ?thesis
  proof (cases x)
    case (Inl e)
    show ?thesis
      using assms refreshAccessToken_rejected [OF assms(1) True ep [unfolded Inl]]
      by (simp add: getValidToken_def resolveTokens_def)
  next
    case (Inr d)
    show ?thesis
      using assms refreshAccessToken_answered [OF assms(1) True ep [unfolded Inr]]
      by (simp add: getValidToken_def resolveTokens_def updatedTokens_def)
  qed
qed

lemma getValidToken_logs_refresh:
  assumes "tokenStore st userId = Some t" and "expires_at t \<le> clock env (world st)"
    and "truthy (refresh_token t)"
  shows "calls (snd (getValidToken env userId st)) =
     calls st @ [TokenCall (refresh_request env t)
                   (fst (token_endpoint env (refresh_request env t) (world st)))]"
proof -
  obtain x w' where ep: "token_endpoint env (refresh_request env t) (world st) = (x, w')"
    by (cases "token_endpoint env (refresh_request env t) (world st)")
  show ?thesis
  proof (cases x)
    case (Inl e)
    show ?thesis
      unfolding getValidToken_expired [OF assms(1,2)]
        refreshAccessToken_rejected [OF assms(1,3) ep [unfolded Inl]] ep Inl
      by simp
  next
    case (Inr d)
    show ?thesis
      unfolding getValidToken_expired [OF assms(1,2)]
        refreshAccessToken_answered [OF assms(1,3) ep [unfolded Inr]] ep Inr
      by simp
  qed
qed

lemma getValidToken_valid_after:
  assumes "tokenStore st userId = Some t" and "positive_lifetime env"
    and "getValidToken env userId st = (Inr tok, st')"
  shows "\<exists>u. tokenStore st' userId = Some u \<and> access_token u = tok
     \<and> clock env (world st') < expires_at u"
proof (cases "clock env (world st) < expires_at t")
  case True
  then show ?thesis using assms getValidToken_fresh [OF assms(1) True] by simp
next
  case False
  then have expired: "expires_at t \<le> clock env (world st)" by simp
  have tr: "truthy (refresh_token t)"
    using assms(3) getValidToken_expired [OF assms(1) expired]
      refreshAccessToken_no_refresh_token [OF assms(1)]
    by (cases "truthy (refresh_token t)") auto
  obtain x w' where ep: "token_endpoint env (refresh_request env t) (world st) = (x, w')"
    by (cases "token_endpoint env (refresh_request env t) (world st)")
  show ?thesis
  proof (cases x)
    case (Inl e)
    then show ?thesis
      using assms(3) getValidToken_expired [OF assms(1) expired]
        refreshAccessToken_rejected [OF assms(1) tr ep [unfolded Inl]]
      by simp
  next
    case (Inr d)
    have "0 < data_expires_in d"
      using assms(2) ep Inr unfolding positive_lifetime_def by blast
    then show ?thesis
      using assms(3) getValidToken_expired [OF assms(1) expired]
        refreshAccessToken_answered [OF assms(1) tr ep [unfolded Inr]]
      by auto
  qed
qed

text \<open>
  C3. When the token endpoint rejects the refresh call, \<open>refreshAccessToken\<close> throws
  \<^verbatim>\<open>Failed to refresh token\<close> (the spec's \<open>RefreshFailed\<close>) and the record of the account
  is gone from the store; from then on, as long as no new record is stored,
  \<open>getValidToken\<close> for the account answers \<open>NotAuthenticated\<close> and the export handler
  answers 401, whatever the outside world does.
\<close>

theorem refresh_failure_purges_record:
  assumes "tokenStore st userId = Some t" and "truthy (refresh_token t)"
    and "token_endpoint env (refresh_request env t) (world st) = (Inl e, w')"
  shows "\<exists>st'. refreshAccessToken env userId st = (Inl (Error ''Failed to refresh token''), st')
     \<and> tokenStore st' userId = None
     \<and> (\<forall>env2 st2. tokenStore st2 = tokenStore st' \<longrightarrow>
           getValidToken env2 userId st2 = (Inl NotAuthenticated, st2))
     \<and> (\<forall>env2 body st2. userId = default_user \<and> tokenStore st2 = tokenStore st' \<longrightarrow>
           exportLeads env2 body st2 = (NotAuthenticated401, st2))"
  unfolding refreshAccessToken_rejected [OF assms]
  by (simp add: getValidToken_def exportLeads_def)

theorem refresh_failure_purges_record_witness:
  "tokenStore (demo_server 2000) default_user = Some demo_tokens
   \<and> truthy (refresh_token demo_tokens)
   \<and> token_endpoint rejecting_env (refresh_request rejecting_env demo_tokens)
        (world (demo_server 2000)) = (Inl invalid_grant, 2005)
   \<and> (\<exists>st'. refreshAccessToken rejecting_env default_user (demo_server 2000)
               = (Inl (Error ''Failed to refresh token''), st')
          \<and> tokenStore st' default_user = None
          \<and> getValidToken rejecting_env default_user st' = (Inl NotAuthenticated, st')
          \<and> exportLeads rejecting_env (demo_body [lead_ok]) st' = (NotAuthenticated401, st'))"
proof -
  have h1: "tokenStore (demo_server 2000) default_user = Some demo_tokens"
    by (simp add: demo_server_def)
  have h2: "truthy (refresh_token demo_tokens)"
    by (simp add: demo_tokens_def)
  have h3: "token_endpoint rejecting_env (refresh_request rejecting_env demo_tokens)
        (world (demo_server 2000)) = (Inl invalid_grant, 2005)"
    by (simp add: rejecting_env_def demo_server_def)
  from refresh_failure_purges_record [OF h1 h2 h3]
  show ?thesis using h1 h2 h3 by blast
qed

text \<open>
  C4. For a stored record \<open>t\<close>, \<open>getValidToken\<close> refreshes exactly when
  \<^verbatim>\<open>Date.now() >= t.expires_at\<close>: before expiry it returns the stored access token and
  leaves the server as it was (no call is made); from expiry on its outcome is that of
  \<open>refreshAccessToken\<close>, the token returned is the one just issued, and (when the record has
  a refresh token) exactly one call to the token endpoint is logged. Whenever it returns a
  token and the token endpoint only issues positive lifetimes, the stored record carries
  that token and expires after the time at which the call returns.
\<close>

theorem getValidToken_refreshes_iff_expired:
  assumes "tokenStore st userId = Some t"
  shows "(clock env (world st) < expires_at t \<longrightarrow>
            getValidToken env userId st = (Inr (access_token t), st))
     \<and> (expires_at t \<le> clock env (world st) \<longrightarrow>
            getValidToken env userId st =
              (case refreshAccessToken env userId st of
                 (Inl e, st1) \<Rightarrow> (Inl (Thrown e), st1)
               | (Inr d, st1) \<Rightarrow> (Inr (data_access_token d), st1)))
     \<and> (expires_at t \<le> clock env (world st) \<and> truthy (refresh_token t) \<longrightarrow>
            calls (snd (getValidToken env userId st)) =
              calls st @ [TokenCall (refresh_request env t)
                            (fst (token_endpoint env (refresh_request env t) (world st)))])
     \<and> (\<forall>tok st'. positive_lifetime env \<and> getValidToken env userId st = (Inr tok, st') \<longrightarrow>
            (\<exists>u. tokenStore st' userId = Some u \<and> access_token u = tok
                 \<and> clock env (world st') < expires_at u))"
  using getValidToken_fresh [OF assms] getValidToken_expired [OF assms]
    getValidToken_logs_refresh [OF assms] getValidToken_valid_after [OF assms]
  by blast

theorem getValidToken_refreshes_iff_expired_witness:
  "tokenStore (demo_server 0) default_user = Some demo_tokens
   \<and> tokenStore (demo_server 2000) default_user = Some demo_tokens
   \<and> positive_lifetime demo_env
   \<and> getValidToken demo_env default_user (demo_server 0) = (Inr (JStr ''old''), demo_server 0)
   \<and> fst (getValidToken demo_env default_user (demo_server 2000)) = Inr (JStr ''fresh'')
   \<and> calls (snd (getValidToken demo_env default_user (demo_server 2000)))
        = [TokenCall (refresh_request demo_env demo_tokens) (Inr demo_token_data)]
   \<and> (\<exists>u. tokenStore (snd (getValidToken demo_env default_user (demo_server 2000)))
              default_user = Some u
          \<and> access_token u = JStr ''fresh''
          \<and> clock demo_env (world (snd (getValidToken demo_env default_user (demo_server 2000))))
              < expires_at u)"
proof -
  have h0: "tokenStore (demo_server 0) default_user = Some demo_tokens"
    and h1: "tokenStore (demo_server 2000) default_user = Some demo_tokens"
    by (simp_all add: demo_server_def)
  have pos: "positive_lifetime demo_env"
    by (simp add: positive_lifetime_def demo_env_def demo_token_data_def)
  have fresh: "clock demo_env (world (demo_server 0)) < expires_at demo_tokens"
    and expired: "expires_at demo_tokens \<le> clock demo_env (world (demo_server 2000))"
    and tr: "truthy (refresh_token demo_tokens)"
    by (simp_all add: demo_env_def demo_server_def demo_tokens_def)
  have ep: "token_endpoint demo_env (refresh_request demo_env demo_tokens)
      (world (demo_server 2000)) = (Inr demo_token_data, 2005)"
    by (simp add: demo_env_def demo_server_def)
  have a: "getValidToken demo_env default_user (demo_server 0) = (Inr (JStr ''old''), demo_server 0)"
    using getValidToken_refreshes_iff_expired [OF h0, of demo_env] fresh
    by (simp add: demo_tokens_def)
  have b: "getValidToken demo_env default_user (demo_server 2000) =
      (Inr (JStr ''fresh''), snd (refreshAccessToken demo_env default_user (demo_server 2000)))"
    using getValidToken_refreshes_iff_expired [OF h1, of demo_env] expired
      refreshAccessToken_answered [OF h1 tr ep]
    by (simp add: demo_token_data_def)
  have "calls (snd (getValidToken demo_env default_user (demo_server 2000)))
        = calls (demo_server 2000) @ [TokenCall (refresh_request demo_env demo_tokens)
            (fst (token_endpoint demo_env (refresh_request demo_env demo_tokens)
                    (world (demo_server 2000))))]"
    using getValidToken_refreshes_iff_expired [OF h1, of demo_env] expired tr by blast
  also have "\<dots> = [TokenCall (refresh_request demo_env demo_tokens) (Inr demo_token_data)]"
    unfolding ep by (simp add: demo_server_def)
  finally have c: "calls (snd (getValidToken demo_env default_user (demo_server 2000)))
        = [TokenCall (refresh_request demo_env demo_tokens) (Inr demo_token_data)]" .
  have d: "\<exists>u. tokenStore (snd (getValidToken demo_env default_user (demo_server 2000)))
              default_user = Some u
          \<and> access_token u = JStr ''fresh''
          \<and> clock demo_env (world (snd (getValidToken demo_env default_user (demo_server 2000))))
              < expires_at u"
    using getValidToken_refreshes_iff_expired [OF h1, of demo_env] pos b by simp
  show ?thesis using h0 h1 pos a b c d by simp
qed

text \<open>
  C6. When the token endpoint answers the refresh call with \<open>d\<close>, the stored record gets
  the new access token and the expiry \<^verbatim>\<open>Date.now() + d.expires_in * 1000\<close>; its refresh
  token becomes the one of \<open>d\<close> when \<open>d\<close> carries a (truthy) one and is kept otherwise;
  \<^verbatim>\<open>location_id\<close>, \<^verbatim>\<open>company_id\<close> and \<^verbatim>\<open>scope\<close> are unchanged, and so are the
  records of all other accounts.
\<close>

theorem refresh_success_merges_record:
  assumes "tokenStore st userId = Some t" and "truthy (refresh_token t)"
    and "token_endpoint env (refresh_request env t) (world st) = (Inr d, w')"
  shows "\<exists>st' u. refreshAccessToken env userId st = (Inr d, st')
     \<and> tokenStore st' userId = Some u
     \<and> access_token u = data_access_token d
     \<and> expires_at u = clock env w' + data_expires_in d * 1000
     \<and> refresh_token u = (if truthy (data_refresh_token d) then data_refresh_token d
                           else refresh_token t)
     \<and> location_id u = location_id t \<and> company_id u = company_id t \<and> scope u = scope t
     \<and> (\<forall>other. other \<noteq> userId \<longrightarrow> tokenStore st' other = tokenStore st other)"
  unfolding refreshAccessToken_answered [OF assms] by (simp add: js_or_def)

theorem refresh_success_merges_record_witness:
  "tokenStore (demo_server 2000) default_user = Some demo_tokens
   \<and> truthy (refresh_token demo_tokens)
   \<and> token_endpoint demo_env (refresh_request demo_env demo_tokens)
        (world (demo_server 2000)) = (Inr demo_token_data, 2005)
   \<and> (\<exists>st' u. refreshAccessToken demo_env default_user (demo_server 2000)
                 = (Inr demo_token_data, st')
          \<and> tokenStore st' default_user = Some u
          \<and> access_token u = JStr ''fresh''
          \<and> expires_at u = 3602005
          \<and> refresh_token u = JStr ''r1''
          \<and> location_id u = JStr ''loc1'' \<and> company_id u = JStr ''comp1''
          \<and> scope u = JStr ''contacts.write'')"
proof -
  have h1: "tokenStore (demo_server 2000) default_user = Some demo_tokens"
    by (simp add: demo_server_def)
  have h2: "truthy (refresh_token demo_tokens)"
    by (simp add: demo_tokens_def)
  have h3: "token_endpoint demo_env (refresh_request demo_env demo_tokens)
        (world (demo_server 2000)) = (Inr demo_token_data, 2005)"
    by (simp add: demo_env_def demo_server_def)
  have v: "data_access_token demo_token_data = JStr ''fresh''"
    "clock demo_env 2005 + data_expires_in demo_token_data * 1000 = 3602005"
    "\<not> truthy (data_refresh_token demo_token_data)"
    "refresh_token demo_tokens = JStr ''r1''" "location_id demo_tokens = JStr ''loc1''"
    "company_id demo_tokens = JStr ''comp1''" "scope demo_tokens = JStr ''contacts.write''"
    by (simp_all add: demo_token_data_def demo_env_def demo_tokens_def)
  from refresh_success_merges_record [OF h1 h2 h3]
  show ?thesis using h1 h2 h3 v by auto
qed

text \<open>
  C8. \<open>authStatus\<close> answers \<^verbatim>\<open>authenticated: false\<close> when there is no record and when
  the stored record is past its expiry (\<^verbatim>\<open>Date.now() >= expires_at\<close>), and it never
  changes the server: the store, the outside world and the log of upstream calls are as
  before, so no refresh has been made.
\<close>

theorem authStatus_is_a_read:
  "(tokenStore st default_user = None \<longrightarrow> \<not> authenticated (fst (authStatus env st)))
   \<and> (\<forall>t. tokenStore st default_user = Some t \<and> expires_at t \<le> clock env (world st)
        \<longrightarrow> \<not> authenticated (fst (authStatus env st)))
   \<and> snd (authStatus env st) = st"
  by (auto simp: authStatus_def Let_def split: option.splits)

theorem authStatus_is_a_read_witness:
  "tokenStore (empty_server 0) default_user = None
   \<and> \<not> authenticated (fst (authStatus demo_env (empty_server 0)))
   \<and> tokenStore (demo_server 2000) default_user = Some demo_tokens
   \<and> expires_at demo_tokens \<le> clock demo_env (world (demo_server 2000))
   \<and> \<not> authenticated (fst (authStatus demo_env (demo_server 2000)))
   \<and> snd (authStatus demo_env (demo_server 2000)) = demo_server 2000"
proof -
  have h0: "tokenStore (empty_server 0) default_user = None"
    by (simp add: empty_server_def)
  have h1: "tokenStore (demo_server 2000) default_user = Some demo_tokens"
    by (simp add: demo_server_def)
  have h2: "expires_at demo_tokens \<le> clock demo_env (world (demo_server 2000))"
    by (simp add: demo_env_def demo_server_def demo_tokens_def)
  show ?thesis
    using h0 h1 h2 authStatus_is_a_read [of "empty_server 0" demo_env]
      authStatus_is_a_read [of "demo_server 2000" demo_env]
    by blast
qed

text \<open>
  C9. When the callback handler succeeds (it redirects), its token call was answered with
  some \<open>d\<close> and the store holds a record with the access token of \<open>d\<close> and the expiry
  \<^verbatim>\<open>Date.now() + d.expires_in * 1000\<close>. A following \<open>getValidToken\<close> on that store, at any
  time before that expiry, returns this access token and leaves the server unchanged: no
  refresh call, no change of the record.
\<close>

theorem callback_then_getValidToken:
  assumes "callback env code st = (Redirect l, st1)"
  shows "\<exists>d rec. last (calls st1) =
             TokenCall (AuthorizationCode (clientId (config env)) (clientSecret (config env))
                          code (redirectUri (config env))) (Inr d)
     \<and> tokenStore st1 default_user = Some rec
     \<and> access_token rec = data_access_token d
     \<and> expires_at rec = clock env (world st1) + data_expires_in d * 1000
     \<and> (\<forall>st2. tokenStore st2 = tokenStore st1 \<and> clock env (world st2) < expires_at rec \<longrightarrow>
           getValidToken env default_user st2 = (Inr (access_token rec), st2))"
proof -
  let ?req = "AuthorizationCode (clientId (config env)) (clientSecret (config env))
                code (redirectUri (config env))"
  obtain x w' where ep: "token_endpoint env ?req (world st) = (x, w')"
    by (cases "token_endpoint env ?req (world st)")
  from assms obtain d where x: "x = Inr d"
    and st1: "st1 = st\<lparr>world := w', calls := calls st @ [TokenCall ?req (Inr d)],
        tokenStore := (tokenStore st)(default_user \<mapsto>
          \<lparr>access_token = data_access_token d,
           refresh_token = data_refresh_token d,
           expires_at = clock env w' + data_expires_in d * 1000,
           location_id = data_locationId d,
           company_id = data_companyId d,
           scope = data_scope d\<rparr>)\<rparr>"
    using ep by (cases x) (auto simp: callback_def axios_post_token_def split: if_splits)
  show ?thesis
    unfolding st1 by (simp add: getValidToken_fresh)
qed

theorem callback_then_getValidToken_witness:
  "fst (callback demo_env (JStr ''code1'') (empty_server 0)) = Redirect (JStr ''loc1'')
   \<and> (\<exists>rec. tokenStore (snd (callback demo_env (JStr ''code1'') (empty_server 0))) default_user
               = Some rec
          \<and> access_token rec = JStr ''fresh'' \<and> expires_at rec = 3600005
          \<and> getValidToken demo_env default_user
               (snd (callback demo_env (JStr ''code1'') (empty_server 0)))
             = (Inr (JStr ''fresh''), snd (callback demo_env (JStr ''code1'') (empty_server 0))))"
proof -
  let ?st1 = "snd (callback demo_env (JStr ''code1'') (empty_server 0))"
  have f: "fst (callback demo_env (JStr ''code1'') (empty_server 0)) = Redirect (JStr ''loc1'')"
    by (simp add: callback_def axios_post_token_def demo_env_def demo_token_data_def
        empty_server_def)
  then have h: "callback demo_env (JStr ''code1'') (empty_server 0)
      = (Redirect (JStr ''loc1''), ?st1)"
    by (metis prod.collapse)
  have w: "world ?st1 = 5"
    by (simp add: callback_def axios_post_token_def demo_env_def empty_server_def)
  have c: "last (calls ?st1) =
      TokenCall (AuthorizationCode (clientId (config demo_env)) (clientSecret (config demo_env))
                   (JStr ''code1'') (redirectUri (config demo_env))) (Inr demo_token_data)"
    by (simp add: callback_def axios_post_token_def demo_env_def empty_server_def)
  from callback_then_getValidToken [OF h] obtain d rec where
    d: "last (calls ?st1) =
      TokenCall (AuthorizationCode (clientId (config demo_env)) (clientSecret (config demo_env))
                   (JStr ''code1'') (redirectUri (config demo_env))) (Inr d)"
    and rec: "tokenStore ?st1 default_user = Some rec"
      "access_token rec = data_access_token d"
      "expires_at rec = clock demo_env (world ?st1) + data_expires_in d * 1000"
    and rt: "\<forall>st2. tokenStore st2 = tokenStore ?st1 \<and> clock demo_env (world st2) < expires_at rec
        \<longrightarrow> getValidToken demo_env default_user st2 = (Inr (access_token rec), st2)"
    by blast
  have dd: "d = demo_token_data" using c d by simp
  have acc: "access_token rec = JStr ''fresh''" and ex: "expires_at rec = 3600005"
    using rec w by (simp_all add: dd demo_token_data_def demo_env_def)
  have "clock demo_env (world ?st1) < expires_at rec"
    using w ex by (simp add: demo_env_def)
  then have "getValidToken demo_env default_user ?st1 = (Inr (JStr ''fresh''), ?st1)"
    using rt acc by simp
  then show ?thesis using f rec(1) acc ex by blast
qed

section \<open>The normalizer\<close>

lemma resolve_absent:
  assumes "\<forall>k \<in> set keys. get lead k = Undef"
  shows "resolve keys dflt lead = dflt"
proof -
  have "filter truthy (map (get lead) keys) = []"
    using assms by (induction keys) auto
  then show ?thesis by (simp add: resolve_def)
qed

lemma resolve_Cons:
  "resolve (k # keys) dflt lead =
     (if truthy (get lead k) then get lead k else resolve keys dflt lead)"
  by (simp add: resolve_def)

lemma js_or_resolve1: "js_or (get lead k) d = resolve [k] d lead"
  by (simp add: resolve_def js_or_def)

lemma js_or_resolve2: "js_or (js_or (get lead k1) (get lead k2)) d = resolve [k1, k2] d lead"
  by (simp add: resolve_def js_or_def)

lemma contactData_resolve:
  "contactData lead =
     \<lparr>firstName = resolve [''firstName'', ''first_name''] (JStr '''') lead,
      lastName = resolve [''lastName'', ''last_name''] (JStr '''') lead,
      email = resolve [''email''] (JStr '''') lead,
      phone = resolve [''phone'', ''phoneNumber''] (JStr '''') lead,
      address1 = resolve [''address'', ''address1''] (JStr '''') lead,
      city = resolve [''city''] (JStr '''') lead,
      state = resolve [''state''] (JStr '''') lead,
      country = resolve [''country''] (JStr ''US'') lead,
      postalCode = resolve [''zipCode'', ''postalCode''] (JStr '''') lead,
      website = resolve [''website''] (JStr '''') lead,
      timezone = resolve [''timezone''] (JStr ''America/New_York'') lead,
      source = ''D7 LeadFinder Import'',
      tags = [''D7Import'', ''Lead'']\<rparr>"
  unfolding contactData_def js_or_resolve2 unfolding js_or_resolve1 by (rule refl)

text \<open>
  C5, as stated, fails on a lead whose primary key is present with a falsy value. In
  \<open>lead_blank\<close> the keys \<^verbatim>\<open>firstName\<close> and \<^verbatim>\<open>country\<close> are present and hold the empty
  string. Resolving by presence gives the empty string for both fields; the normalizer
  passes over them and gives the alias \<^verbatim>\<open>Jo\<close> and the default \<^verbatim>\<open>US\<close>.
\<close>

theorem present_falsy_key_is_skipped:
  "normalize lead_blank = Inr (contactData lead_blank)
   \<and> firstName (contactData lead_blank) = JStr ''Jo''
   \<and> resolve_present [''firstName'', ''first_name''] (JStr []) lead_blank = JStr []
   \<and> country (contactData lead_blank) = JStr ''US''
   \<and> resolve_present [''country''] (JStr ''US'') lead_blank = JStr []"
  by (simp add: normalize_def nullish_def contactData_def js_or_def resolve_present_def
      lead_blank_def)

text \<open>
  C5, amended. For every lead record (any value but \<^verbatim>\<open>null\<close>), the normalizer returns a
  contact that is a function of the lead alone: each field is resolved from its primary
  key, then its alias, then its default (the empty string, \<^verbatim>\<open>US\<close> for the country,
  \<^verbatim>\<open>America/New_York\<close> for the timezone), where a key gives the field when its value is
  truthy and is passed over when its value is falsy, whether the key is missing or holds
  the empty string, 0, \<^verbatim>\<open>false\<close> or \<^verbatim>\<open>null\<close>; the source and the tags are the two
  constants. The default is what results when none of the keys is present; a lead with
  only \<^verbatim>\<open>first_name: "Jo"\<close> gets the first name \<^verbatim>\<open>Jo\<close>, and one with neither key gets
  the empty string.
\<close>

theorem normalize_resolves_aliases:
  assumes "\<not> nullish lead"
  shows "\<exists>c. normalize lead = Inr c
     \<and> firstName c = resolve [''firstName'', ''first_name''] (JStr '''') lead
     \<and> lastName c = resolve [''lastName'', ''last_name''] (JStr '''') lead
     \<and> email c = resolve [''email''] (JStr '''') lead
     \<and> phone c = resolve [''phone'', ''phoneNumber''] (JStr '''') lead
     \<and> address1 c = resolve [''address'', ''address1''] (JStr '''') lead
     \<and> city c = resolve [''city''] (JStr '''') lead
     \<and> state c = resolve [''state''] (JStr '''') lead
     \<and> country c = resolve [''country''] (JStr ''US'') lead
     \<and> postalCode c = resolve [''zipCode'', ''postalCode''] (JStr '''') lead
     \<and> website c = resolve [''website''] (JStr '''') lead
     \<and> timezone c = resolve [''timezone''] (JStr ''America/New_York'') lead
     \<and> source c = ''D7 LeadFinder Import''
     \<and> tags c = [''D7Import'', ''Lead'']
     \<and> (\<forall>k keys dflt. truthy (get lead k) \<longrightarrow> resolve (k # keys) dflt lead = get lead k)
     \<and> (\<forall>k keys dflt. \<not> truthy (get lead k) \<longrightarrow>
           resolve (k # keys) dflt lead = resolve keys dflt lead)
     \<and> (\<forall>dflt. resolve [] dflt lead = dflt)
     \<and> (\<forall>keys dflt. (\<forall>k \<in> set keys. get lead k = Undef) \<longrightarrow> resolve keys dflt lead = dflt)
     \<and> (get lead ''firstName'' = Undef \<and> get lead ''first_name'' = JStr ''Jo''
          \<longrightarrow> firstName c = JStr ''Jo'')
     \<and> (get lead ''firstName'' = Undef \<and> get lead ''first_name'' = Undef
          \<longrightarrow> firstName c = JStr '''')"
proof -
  have n: "normalize lead = Inr (contactData lead)"
    using assms by (simp add: normalize_def)
  have taken: "\<forall>k keys dflt. truthy (get lead k) \<longrightarrow> resolve (k # keys) dflt lead = get lead k"
    and skipped: "\<forall>k keys dflt. \<not> truthy (get lead k) \<longrightarrow>
           resolve (k # keys) dflt lead = resolve keys dflt lead"
    and nil: "\<forall>dflt. resolve [] dflt lead = dflt"
    by (simp_all add: resolve_def)
  have absent: "\<forall>keys dflt. (\<forall>k \<in> set keys. get lead k = Undef) \<longrightarrow> resolve keys dflt lead = dflt"
    by (simp add: resolve_absent)
  have jo: "get lead ''firstName'' = Undef \<and> get lead ''first_name'' = JStr ''Jo''
      \<longrightarrow> resolve [''firstName'', ''first_name''] (JStr '''') lead = JStr ''Jo''"
    by (simp add: resolve_Cons)
  have neither: "get lead ''firstName'' = Undef \<and> get lead ''first_name'' = Undef
      \<longrightarrow> resolve [''firstName'', ''first_name''] (JStr '''') lead = JStr ''''"
    by (simp add: resolve_absent)
  show ?thesis
    unfolding n contactData_resolve using taken skipped nil absent jo neither by simp
qed

theorem normalize_resolves_aliases_witness:
  "\<not> nullish (JObj [(''first_name'', JStr ''Jo'')])
   \<and> (\<exists>c. normalize (JObj [(''first_name'', JStr ''Jo'')]) = Inr c
          \<and> firstName c = JStr ''Jo'' \<and> lastName c = JStr '''' \<and> email c = JStr ''''
          \<and> country c = JStr ''US'' \<and> timezone c = JStr ''America/New_York''
          \<and> source c = ''D7 LeadFinder Import'' \<and> tags c = [''D7Import'', ''Lead''])
   \<and> \<not> nullish lead_blank
   \<and> get lead_blank ''firstName'' = JStr [] \<and> get lead_blank ''country'' = JStr []
   \<and> (\<exists>c. normalize lead_blank = Inr c
          \<and> firstName c = JStr ''Jo'' \<and> country c = JStr ''US'')"
proof -
  let ?lead = "JObj [(''first_name'', JStr ''Jo'')]"
  have h: "\<not> nullish ?lead" by (simp add: nullish_def)
  have r: "resolve [''firstName'', ''first_name''] (JStr '''') ?lead = JStr ''Jo''"
    "resolve [''lastName'', ''last_name''] (JStr '''') ?lead = JStr ''''"
    "resolve [''email''] (JStr '''') ?lead = JStr ''''"
    "resolve [''country''] (JStr ''US'') ?lead = JStr ''US''"
    "resolve [''timezone''] (JStr ''America/New_York'') ?lead = JStr ''America/New_York''"
    by (simp_all add: resolve_def)
  from normalize_resolves_aliases [OF h] obtain c where
    "normalize ?lead = Inr c" "firstName c = JStr ''Jo''" "lastName c = JStr ''''"
    "email c = JStr ''''" "country c = JStr ''US''" "timezone c = JStr ''America/New_York''"
    "source c = ''D7 LeadFinder Import''" "tags c = [''D7Import'', ''Lead'']"
    unfolding r by blast
  then have 1: "\<exists>c. normalize ?lead = Inr c
          \<and> firstName c = JStr ''Jo'' \<and> lastName c = JStr '''' \<and> email c = JStr ''''
          \<and> country c = JStr ''US'' \<and> timezone c = JStr ''America/New_York''
          \<and> source c = ''D7 LeadFinder Import'' \<and> tags c = [''D7Import'', ''Lead'']"
    by blast
  have hb: "\<not> nullish lead_blank" by (simp add: nullish_def lead_blank_def)
  have g: "get lead_blank ''firstName'' = JStr []" "get lead_blank ''country'' = JStr []"
    by (simp_all add: lead_blank_def)
  have rb: "resolve [''firstName'', ''first_name''] (JStr '''') lead_blank = JStr ''Jo''"
    "resolve [''country''] (JStr ''US'') lead_blank = JStr ''US''"
    by (simp_all add: resolve_def lead_blank_def)
  from normalize_resolves_aliases [OF hb] obtain cb where
    "normalize lead_blank = Inr cb" "firstName cb = JStr ''Jo''" "country cb = JStr ''US''"
    unfolding rb by blast
  then have 2: "\<exists>c. normalize lead_blank = Inr c
          \<and> firstName c = JStr ''Jo'' \<and> country c = JStr ''US''"
    by blast
  show ?thesis using h 1 hb g 2 by blast
qed

section \<open>The export handler\<close>

text \<open>
  C7. The export handler answers 401 (the spec's \<open>Unauthenticated\<close>) when the store has no
  record; with a record, it answers 400 (\<open>EmptyBatch\<close>) when \<^verbatim>\<open>leads\<close> is missing, is
  not an array, or is the empty array. For the empty array the answer is one of the two
  and the server is unchanged: nothing was sent upstream.
\<close>

theorem exportLeads_preconditions:
  "(tokenStore st default_user = None \<longrightarrow> exportLeads env body st = (NotAuthenticated401, st))
   \<and> (tokenStore st default_user \<noteq> None
        \<and> (leads body = Undef \<or> \<not> isArray (leads body) \<or> leads body = JArr [])
      \<longrightarrow> exportLeads env body st = (NoLeads400, st))
   \<and> (leads body = JArr [] \<longrightarrow>
        fst (exportLeads env body st) \<in> {NotAuthenticated401, NoLeads400}
        \<and> snd (exportLeads env body st) = st)"
  by (cases "leads body") (auto simp: exportLeads_def split: option.splits)

theorem exportLeads_preconditions_witness:
  "exportLeads demo_env (demo_body [lead_ok]) (empty_server 0)
     = (NotAuthenticated401, empty_server 0)
   \<and> exportLeads demo_env (demo_body []) (demo_server 2000) = (NoLeads400, demo_server 2000)
   \<and> exportLeads demo_env \<lparr>leads = Undef, locationId = Undef\<rparr> (demo_server 2000)
       = (NoLeads400, demo_server 2000)
   \<and> exportLeads demo_env \<lparr>leads = JObj [(''length'', JNum 1)], locationId = Undef\<rparr>
       (demo_server 2000) = (NoLeads400, demo_server 2000)
   \<and> snd (exportLeads demo_env (demo_body []) (empty_server 0)) = empty_server 0"
proof -
  have h0: "tokenStore (empty_server 0) default_user = None"
    by (simp add: empty_server_def)
  have h1: "tokenStore (demo_server 2000) default_user \<noteq> None"
    by (simp add: demo_server_def)
  have b: "leads (demo_body []) = JArr []"
    by (simp add: demo_body_def)
  have 1: "exportLeads demo_env (demo_body [lead_ok]) (empty_server 0)
     = (NotAuthenticated401, empty_server 0)"
    using h0 exportLeads_preconditions [of "empty_server 0" demo_env "demo_body [lead_ok]"]
    by (elim conjE) simp
  have 2: "exportLeads demo_env (demo_body []) (demo_server 2000)
     = (NoLeads400, demo_server 2000)"
    using h1 b exportLeads_preconditions [of "demo_server 2000" demo_env "demo_body []"]
    by (elim conjE) simp
  have 3: "exportLeads demo_env \<lparr>leads = Undef, locationId = Undef\<rparr> (demo_server 2000)
       = (NoLeads400, demo_server 2000)"
    using h1 exportLeads_preconditions [of "demo_server 2000" demo_env
        "\<lparr>leads = Undef, locationId = Undef\<rparr>"]
    by (elim conjE) simp
  have 4: "exportLeads demo_env \<lparr>leads = JObj [(''length'', JNum 1)], locationId = Undef\<rparr>
       (demo_server 2000) = (NoLeads400, demo_server 2000)"
    using h1 exportLeads_preconditions [of "demo_server 2000" demo_env
        "\<lparr>leads = JObj [(''length'', JNum 1)], locationId = Undef\<rparr>"]
    by (elim conjE) simp
  have 5: "snd (exportLeads demo_env (demo_body []) (empty_server 0)) = empty_server 0"
    using b exportLeads_preconditions [of "empty_server 0" demo_env "demo_body []"]
    by (elim conjE) simp
  show ?thesis using 1 2 3 4 5 by simp
qed

lemma exportLead_null:
  "nullish lead \<Longrightarrow> exportLead env u loc lead st = (Inl (TypeError lead ''email''), st)"
  by (simp add: exportLead_def normalize_def catch_leadError_def getprop_def)

lemma catch_leadError_entry:
  assumes "catch_leadError lead e = Inr r"
  shows "\<not> nullish lead \<and> entry_of lead r"
  using assms
  by (cases "nullish lead")
    (auto simp: catch_leadError_def getprop_def entry_of_def split: if_splits)

lemma catch_leadError_loggable:
  assumes "loggable lead"
  shows "\<exists>r. catch_leadError lead e = Inr r"
  using assms by (simp add: catch_leadError_def getprop_def loggable_def)

lemma exportLead_entry:
  assumes "exportLead env u loc lead st = (Inr r, st')"
  shows "\<not> nullish lead \<and> entry_of lead r"
proof (cases "nullish lead")
  case True
  then show ?thesis using assms by (simp add: exportLead_null)
next
  case False
  then have n: "normalize lead = Inr (contactData lead)"
    and em: "email (contactData lead) = js_or (get lead ''email'') (JStr '''')"
    by (simp_all add: normalize_def contactData_def)
  let ?req = "\<lparr>payload = contactData lead, bearer = access_token u, param_locationId = loc\<rparr>"
  show ?thesis
  proof (cases "ToString_throws (access_token u)")
    case True
    then have "catch_leadError lead cannot_convert = Inr r"
      using assms n by (simp add: exportLead_def)
    then show ?thesis by (rule catch_leadError_entry)
  next
    case convertible: False
    obtain out w' where ep: "contacts_endpoint env ?req (world st) = (out, w')"
      by (cases "contacts_endpoint env ?req (world st)")
    show ?thesis
    proof (cases out)
      case (Inl e)
      then have "catch_leadError lead e = Inr r"
        using assms n convertible ep by (simp add: exportLead_def axios_post_contact_def)
      then show ?thesis by (rule catch_leadError_entry)
    next
      case (Inr data)
      show ?thesis
      proof (cases "nullish data")
        case True
        then have "catch_leadError lead (TypeError data ''contact'') = Inr r"
          using assms n convertible ep Inr
          by (simp add: exportLead_def axios_post_contact_def getprop_def)
        then show ?thesis by (rule catch_leadError_entry)
      next
        case False
        then have "r = Success (js_or (get lead ''id'') (get lead ''_id''))
            (optchain (get data ''contact'') ''id'') (email (contactData lead))"
          using assms n convertible ep Inr
          by (simp add: exportLead_def axios_post_contact_def getprop_def)
        then show ?thesis using \<open>\<not> nullish lead\<close> em by (simp add: entry_of_def)
      qed
    qed
  qed
qed

text \<open>For a lead whose log line can be built the body of the loop always pushes an entry.\<close>

lemma exportLead_loggable:
  assumes "loggable lead"
  shows "\<exists>r st1. exportLead env u loc lead st = (Inr r, st1)"
proof -
  have n: "normalize lead = Inr (contactData lead)"
    using assms by (simp add: normalize_def loggable_def)
  let ?req = "\<lparr>payload = contactData lead, bearer = access_token u, param_locationId = loc\<rparr>"
  show ?thesis
  proof (cases "ToString_throws (access_token u)")
    case True
    then show ?thesis
      using n catch_leadError_loggable [OF assms, of cannot_convert]
      by (auto simp: exportLead_def)
  next
    case convertible: False
    obtain out w' where ep: "contacts_endpoint env ?req (world st) = (out, w')"
      by (cases "contacts_endpoint env ?req (world st)")
    show ?thesis
    proof (cases out)
      case (Inl e)
      then show ?thesis
        using n convertible ep catch_leadError_loggable [OF assms, of e]
        by (auto simp: exportLead_def axios_post_contact_def)
    next
      case (Inr data)
      then show ?thesis
        using n convertible ep catch_leadError_loggable [OF assms, of "TypeError data ''contact''"]
        by (cases "nullish data") (auto simp: exportLead_def axios_post_contact_def getprop_def)
    qed
  qed
qed

text \<open>
  The defect in general: when the call for a lead fails and the lead's email does not
  convert to a string, the error thrown by the log line of the catch block is what the
  body of the loop returns, and no entry is pushed.
\<close>

lemma exportLead_failed_call_throws:
  assumes "\<not> nullish lead" and "\<not> ToString_throws (access_token u)"
    and "ToString_throws (get lead ''email'')"
    and "contacts_endpoint env
           \<lparr>payload = contactData lead, bearer = access_token u, param_locationId = loc\<rparr>
           (world st) = (Inl e, w')"
  shows "fst (exportLead env u loc lead st) = Inl cannot_convert"
  using assms
  by (simp add: exportLead_def normalize_def axios_post_contact_def catch_leadError_def
      getprop_def)

lemma exportLoop_entries:
  "exportLoop env u loc ls acc st = (Inr rs, st') \<Longrightarrow>
   \<exists>new. rs = acc @ new \<and> list_all2 entry_of ls new"
proof (induction ls arbitrary: acc st)
  case Nil
  then show ?case by simp
next
  case (Cons l ls)
  obtain x st1 where step: "exportLead env u loc l st = (x, st1)"
    by (cases "exportLead env u loc l st")
  show ?case
  proof (cases x)
    case (Inl e)
    then show ?thesis using Cons.prems step by simp
  next
    case (Inr r)
    then have "exportLoop env u loc ls (acc @ [r]) st1 = (Inr rs, st')"
      using Cons.prems step by simp
    from Cons.IH [OF this] obtain new where
      "rs = (acc @ [r]) @ new" "list_all2 entry_of ls new"
      by blast
    moreover have "entry_of l r" using exportLead_entry step Inr by blast
    ultimately have "rs = acc @ (r # new) \<and> list_all2 entry_of (l # ls) (r # new)" by simp
    then show ?thesis by blast
  qed
qed

lemma exportLoop_loggable:
  assumes "\<forall>l \<in> set ls. loggable l"
  shows "\<exists>rs st'. exportLoop env u loc ls acc st = (Inr (acc @ rs), st')
     \<and> length rs = length ls"
  using assms
proof (induction ls arbitrary: acc st)
  case Nil
  then show ?case by simp
next
  case (Cons l ls)
  have "loggable l" using Cons.prems by simp
  from exportLead_loggable [OF this, of env u loc st]
  obtain r st1 where step: "exportLead env u loc l st = (Inr r, st1)"
    by blast
  have "\<forall>l \<in> set ls. loggable l" using Cons.prems by simp
  from Cons.IH [OF this, of "acc @ [r]" st1]
  obtain rs st' where
    loop: "exportLoop env u loc ls (acc @ [r]) st1 = (Inr ((acc @ [r]) @ rs), st')"
    and len: "length rs = length ls"
    by blast
  have "exportLoop env u loc (l # ls) acc st = (Inr (acc @ (r # rs)), st')"
    using step loop by simp
  moreover have "length (r # rs) = length (l # ls)" using len by simp
  ultimately show ?case by blast
qed

text \<open>What the handler answers once the preconditions hold and the token is resolved.\<close>

lemma exportLeads_accepted:
  assumes "tokenStore st default_user = Some t" and "leads body = JArr ls" and "ls \<noteq> []"
    and "resolveTokens env default_user t st = (Inr u, st1)"
  shows "exportLeads env body st =
     (case exportLoop env u (js_or (locationId body) (location_id u)) ls [] st1 of
        (Inl error, st2) \<Rightarrow> (ExportFailed500 (details error), st2)
      | (Inr rs, st2) \<Rightarrow>
          (Exported200
             \<lparr>results = rs, total = length ls,
              successCount = length (filter success rs),
              failedCount = length (filter (\<lambda>r. \<not> success r) rs)\<rparr>, st2))"
  using assms by (auto simp: exportLeads_def split: prod.splits sum.splits)

text \<open>
  Where the handler does what C1 and C2 ask. When the token is resolved and the log line
  can be built for every lead, the handler answers with a report, whatever the contacts
  endpoint does; and every report it answers with has one entry per lead, in input order,
  with \<^verbatim>\<open>total\<close> and the two counts as C1 says.
\<close>

lemma exportLeads_reports:
  assumes "tokenStore st default_user = Some t" and "leads body = JArr ls" and "ls \<noteq> []"
    and "\<forall>l \<in> set ls. loggable l"
    and "resolveTokens env default_user t st = (Inr u, st1)"
  shows "\<exists>rep st2. exportLeads env body st = (Exported200 rep, st2)
     \<and> length (results rep) = length ls"
proof -
  let ?loc = "js_or (locationId body) (location_id u)"
  from exportLoop_loggable [OF assms(4), of env u ?loc "[]" st1]
  obtain rs st2 where
    loop: "exportLoop env u ?loc ls [] st1 = (Inr rs, st2)"
    and len: "length rs = length ls"
    by auto
  show ?thesis
    unfolding exportLeads_accepted [OF assms(1,2,3,5)] loop using len by simp
qed

lemma exportLeads_report_entries:
  assumes "fst (exportLeads env body st) = Exported200 rep"
  shows "\<exists>ls. leads body = JArr ls \<and> ls \<noteq> [] \<and> tokenStore st default_user \<noteq> None
     \<and> length (results rep) = length ls
     \<and> (\<forall>i < length ls. entry_of (ls ! i) (results rep ! i))
     \<and> total rep = length ls
     \<and> successCount rep + failedCount rep = length ls"
proof -
  obtain t where t: "tokenStore st default_user = Some t"
    using assms by (cases "tokenStore st default_user") (auto simp: exportLeads_def)
  obtain ls where ls: "leads body = JArr ls" "ls \<noteq> []"
    using assms t by (cases "leads body") (auto simp: exportLeads_def split: if_splits)
  obtain x st1 where rt: "resolveTokens env default_user t st = (x, st1)"
    by (cases "resolveTokens env default_user t st")
  obtain u where u: "x = Inr u"
    using assms t ls rt by (cases x) (auto simp: exportLeads_def)
  let ?loc = "js_or (locationId body) (location_id u)"
  obtain y st2 where lp: "exportLoop env u ?loc ls [] st1 = (y, st2)"
    by (cases "exportLoop env u ?loc ls [] st1")
  obtain rs where rs: "y = Inr rs"
    using assms exportLeads_accepted [OF t ls rt [unfolded u]] lp by (cases y) auto
  have rep: "rep = \<lparr>results = rs, total = length ls,
       successCount = length (filter success rs),
       failedCount = length (filter (\<lambda>r. \<not> success r) rs)\<rparr>"
    using assms exportLeads_accepted [OF t ls rt [unfolded u]] lp rs by simp
  have all2: "list_all2 entry_of ls rs"
    using exportLoop_entries [OF lp [unfolded rs]] by simp
  then have len: "length rs = length ls" by (simp add: list_all2_lengthD)
  have nth: "\<forall>i < length ls. entry_of (ls ! i) (rs ! i)"
    using all2 by (simp add: list_all2_conv_all_nth)
  show ?thesis
    using t ls len nth sum_length_filter_compl [of success rs] by (simp add: rep)
qed

text \<open>Evaluations of the handler used below.\<close>

lemma demo_export_mixed:
  "exportLeads demo_env (demo_body [lead_bad, lead_ok]) (demo_server 0) =
     (Exported200 demo_report,
      \<lparr>tokenStore = [default_user \<mapsto> demo_tokens], world = 10,
       calls =
         [ContactCall \<lparr>payload = contactData lead_bad, bearer = JStr ''old'',
                       param_locationId = JStr ''loc1''\<rparr> (Inl invalid_email),
          ContactCall \<lparr>payload = contactData lead_ok, bearer = JStr ''old'',
                       param_locationId = JStr ''loc1''\<rparr>
            (Inr (JObj [(''contact'', JObj [(''id'', JStr ''c1'')])]))]\<rparr>)"
  by (simp add: demo_simps handler_simps demo_report_def invalid_email_def)

lemma demo_export_null:
  "exportLeads demo_env (demo_body [lead_bad, Null, lead_ok]) (demo_server 0) =
     (ExportFailed500 (JStr (message (TypeError Null ''email''))),
      \<lparr>tokenStore = [default_user \<mapsto> demo_tokens], world = 5,
       calls =
         [ContactCall \<lparr>payload = contactData lead_bad, bearer = JStr ''old'',
                       param_locationId = JStr ''loc1''\<rparr> (Inl invalid_email)]\<rparr>)"
  by (simp add: demo_simps handler_simps invalid_email_def)

lemma demo_export_weird:
  "exportLeads strict_env (demo_body [lead_weird, lead_ok]) (demo_server 0) =
     (ExportFailed500 (JStr ''Cannot convert object to primitive value''),
      \<lparr>tokenStore = [default_user \<mapsto> demo_tokens], world = 5,
       calls =
         [ContactCall \<lparr>payload = contactData lead_weird, bearer = JStr ''old'',
                       param_locationId = JStr ''loc1''\<rparr> (Inl invalid_email)]\<rparr>)"
  by (simp add: demo_simps handler_simps invalid_email_def)

lemma demo_export_num:
  "exportLeads demo_env (demo_body [lead_num]) (demo_server 0) =
     (Exported200
        \<lparr>results = [Success Undef (JStr ''c1'') (JNum 42)],
         total = 1, successCount = 1, failedCount = 0\<rparr>,
      \<lparr>tokenStore = [default_user \<mapsto> demo_tokens], world = 5,
       calls =
         [ContactCall \<lparr>payload = contactData lead_num, bearer = JStr ''old'',
                       param_locationId = JStr ''loc1''\<rparr>
            (Inr (JObj [(''contact'', JObj [(''id'', JStr ''c1'')])]))]\<rparr>)"
  by (simp add: demo_simps handler_simps)

text \<open>
  C1 asks that every accepted list of N leads (the caller has a record, the list is not
  empty) gets a report with N entries. The code does not deliver it for the list
  \<^verbatim>\<open>[lead_bad, null, lead_ok]\<close>, sent with a valid token: the first lead is sent upstream
  and its failure recorded; for the \<^verbatim>\<open>null\<close> element building the contact throws inside
  the inner \<^verbatim>\<open>try\<close>, and the catch block throws again at its log line (line 241) when it
  reads \<^verbatim>\<open>lead.email\<close>. The loop is left, the handler answers 500 with the message of the
  \<^verbatim>\<open>TypeError\<close>, and there is no report: no entries, no total, no counts, although one
  call has gone upstream.
\<close>

theorem null_lead_aborts_batch:
  "fst (exportLeads demo_env (demo_body [lead_bad, Null, lead_ok]) (demo_server 0))
     = ExportFailed500 (JStr (message (TypeError Null ''email'')))
   \<and> calls (snd (exportLeads demo_env (demo_body [lead_bad, Null, lead_ok]) (demo_server 0)))
     = [ContactCall \<lparr>payload = contactData lead_bad, bearer = JStr ''old'',
                     param_locationId = JStr ''loc1''\<rparr> (Inl invalid_email)]"
  by (simp add: demo_export_null)

theorem null_lead_aborts_batch_witness:
  "\<not> is_report (fst (exportLeads demo_env (demo_body [lead_bad, Null, lead_ok]) (demo_server 0)))
   \<and> length (elems (leads (demo_body [lead_bad, Null, lead_ok]))) = 3
   \<and> length (calls (snd (exportLeads demo_env (demo_body [lead_bad, Null, lead_ok])
                            (demo_server 0)))) = 1"
  using null_lead_aborts_batch by (simp add: demo_body_def)

text \<open>
  C2 asks that a failed contact-creation call is recorded and never aborts the batch. The
  code does not deliver it for the list \<^verbatim>\<open>[lead_weird, lead_ok]\<close> when the upstream
  rejects the first lead: the call for \<^verbatim>\<open>lead_weird\<close> fails with a 422 and is caught,
  but the log line of the catch block (line 241) converts \<^verbatim>\<open>lead.email\<close>, the object
  \<^verbatim>\<open>{"toString": null}\<close>, to a string, which throws. Nothing is pushed for the lead, the
  loop is left, \<^verbatim>\<open>lead_ok\<close> is never attempted (the log holds the one failed call) and
  the handler answers 500 instead of a report.
\<close>

theorem failed_call_aborts_batch:
  "fst (exportLeads strict_env (demo_body [lead_weird, lead_ok]) (demo_server 0))
     = ExportFailed500 (JStr ''Cannot convert object to primitive value'')
   \<and> calls (snd (exportLeads strict_env (demo_body [lead_weird, lead_ok]) (demo_server 0)))
     = [ContactCall \<lparr>payload = contactData lead_weird, bearer = JStr ''old'',
                     param_locationId = JStr ''loc1''\<rparr> (Inl invalid_email)]"
  by (simp add: demo_export_weird)

theorem failed_call_aborts_batch_witness:
  "\<not> is_report (fst (exportLeads strict_env (demo_body [lead_weird, lead_ok]) (demo_server 0)))
   \<and> length (elems (leads (demo_body [lead_weird, lead_ok]))) = 2
   \<and> length (calls (snd (exportLeads strict_env (demo_body [lead_weird, lead_ok])
                            (demo_server 0)))) = 1"
  using failed_call_aborts_batch by (simp add: demo_body_def)

text \<open>
  C10, as stated, fails: a lead whose \<^verbatim>\<open>email\<close> is the number 42 is exported with
  success, and the email of its entry is that number, not a string.
\<close>

theorem success_email_not_a_string:
  "fst (exportLeads demo_env (demo_body [lead_num]) (demo_server 0))
     = Exported200 \<lparr>results = [Success Undef (JStr ''c1'') (JNum 42)],
                    total = 1, successCount = 1, failedCount = 0\<rparr>
   \<and> success (Success Undef (JStr ''c1'') (JNum 42))
   \<and> \<not> is_string (res_email (Success Undef (JStr ''c1'') (JNum 42)))"
  by (simp add: demo_export_num)

text \<open>
  C10, amended. For every entry \<open>r\<close> that the loop records for a lead: \<^verbatim>\<open>leadId\<close> is the
  lead's \<^verbatim>\<open>id\<close> when that is truthy and its \<^verbatim>\<open>_id\<close> otherwise (undefined when the lead
  has neither). On success the email is the one of the normalized contact, that is the
  lead's \<^verbatim>\<open>email\<close> when truthy and the empty string otherwise: a string whenever the
  lead's email is a string or is missing, and the empty string when it is missing. On
  failure the email is the raw \<^verbatim>\<open>lead.email\<close>, undefined when the key is missing.
\<close>

theorem exportLead_entry_fields:
  assumes "exportLead env u loc lead st = (Inr r, st')"
  shows "leadId r = (if truthy (get lead ''id'') then get lead ''id'' else get lead ''_id'')
     \<and> (get lead ''id'' = Undef \<and> get lead ''_id'' = Undef \<longrightarrow> leadId r = Undef)
     \<and> (success r \<longrightarrow>
          (\<exists>c. normalize lead = Inr c \<and> res_email r = email c)
          \<and> res_email r = (if truthy (get lead ''email'') then get lead ''email'' else JStr '''')
          \<and> (is_string (get lead ''email'') \<or> get lead ''email'' = Undef
                \<longrightarrow> is_string (res_email r))
          \<and> (get lead ''email'' = Undef \<longrightarrow> res_email r = JStr ''''))
     \<and> (\<not> success r \<longrightarrow>
          res_email r = get lead ''email''
          \<and> (get lead ''email'' = Undef \<longrightarrow> res_email r = Undef))"
proof -
  have nn: "\<not> nullish lead" and e: "entry_of lead r"
    using exportLead_entry [OF assms] by simp_all
  have n: "\<exists>c. normalize lead = Inr c \<and> email c = js_or (get lead ''email'') (JStr '''')"
    using nn by (simp add: normalize_def contactData_def)
  have s: "is_string (get lead ''email'') \<or> get lead ''email'' = Undef
      \<longrightarrow> is_string (js_or (get lead ''email'') (JStr ''''))"
    by (cases "get lead ''email''") (simp_all add: js_or_def)
  show ?thesis
    using e n s by (auto simp: entry_of_def js_or_def)
qed

theorem exportLead_entry_fields_witness:
  "fst (exportLead demo_env demo_tokens (JStr ''loc1'') lead_ok (demo_server 0))
     = Inr (Success (JNum 7) (JStr ''c1'') (JStr ''jo@example.com''))
   \<and> fst (exportLead demo_env demo_tokens (JStr ''loc1'') lead_bad (demo_server 0))
     = Inr (Failure (JStr ''b2'') (JStr ''bad@example.com'') (JStr ''Invalid email''))
   \<and> leadId (Success (JNum 7) (JStr ''c1'') (JStr ''jo@example.com'')) = get lead_ok ''id''
   \<and> is_string (res_email (Success (JNum 7) (JStr ''c1'') (JStr ''jo@example.com'')))
   \<and> leadId (Failure (JStr ''b2'') (JStr ''bad@example.com'') (JStr ''Invalid email''))
       = get lead_bad ''_id''
   \<and> res_email (Failure (JStr ''b2'') (JStr ''bad@example.com'') (JStr ''Invalid email''))
       = get lead_bad ''email''
   \<and> fst (exportLead demo_env demo_tokens (JStr ''loc1'') (JObj []) (demo_server 0))
       = Inr (Success Undef (JStr ''c1'') (JStr []))
   \<and> get (JObj []) ''id'' = Undef \<and> get (JObj []) ''_id'' = Undef
   \<and> get (JObj []) ''email'' = Undef"
proof -
  let ?ok = "Success (JNum 7) (JStr ''c1'') (JStr ''jo@example.com'')"
  let ?bad = "Failure (JStr ''b2'') (JStr ''bad@example.com'') (JStr ''Invalid email'')"
  have f1: "fst (exportLead demo_env demo_tokens (JStr ''loc1'') lead_ok (demo_server 0))
      = Inr ?ok"
    by (simp add: demo_simps handler_simps)
  have f2: "fst (exportLead demo_env demo_tokens (JStr ''loc1'') lead_bad (demo_server 0))
      = Inr ?bad"
    by (simp add: demo_simps handler_simps invalid_email_def)
  have e1: "exportLead demo_env demo_tokens (JStr ''loc1'') lead_ok (demo_server 0)
      = (Inr ?ok, snd (exportLead demo_env demo_tokens (JStr ''loc1'') lead_ok (demo_server 0)))"
    using f1 by (metis prod.collapse)
  have e2: "exportLead demo_env demo_tokens (JStr ''loc1'') lead_bad (demo_server 0)
      = (Inr ?bad, snd (exportLead demo_env demo_tokens (JStr ''loc1'') lead_bad (demo_server 0)))"
    using f2 by (metis prod.collapse)
  have g: "truthy (get lead_ok ''id'')" "is_string (get lead_ok ''email'')"
    "\<not> truthy (get lead_bad ''id'')"
    by (simp_all add: lead_ok_def lead_bad_def)
  have 1: "leadId ?ok = get lead_ok ''id''" "is_string (res_email ?ok)"
    using exportLead_entry_fields [OF e1] g by simp_all
  have 2: "leadId ?bad = get lead_bad ''_id''" "res_email ?bad = get lead_bad ''email''"
    using exportLead_entry_fields [OF e2] g by simp_all
  have f3: "fst (exportLead demo_env demo_tokens (JStr ''loc1'') (JObj []) (demo_server 0))
      = Inr (Success Undef (JStr ''c1'') (JStr []))"
    by (simp add: demo_simps handler_simps)
  have e3: "exportLead demo_env demo_tokens (JStr ''loc1'') (JObj []) (demo_server 0)
      = (Inr (Success Undef (JStr ''c1'') (JStr [])),
         snd (exportLead demo_env demo_tokens (JStr ''loc1'') (JObj []) (demo_server 0)))"
    using f3 by (metis prod.collapse)
  have 3: "get (JObj []) ''id'' = Undef" "get (JObj []) ''_id'' = Undef"
    "get (JObj []) ''email'' = Undef"
    by simp_all
  note exportLead_entry_fields [OF e3]
  show ?thesis using f1 f2 f3 1 2 3 by simp
qed

end
